theory Spec2Isabelle
  imports Complex_Main "HOL-Library.AList" "HOL-Library.Word"
begin

section \<open>Strings\<close>

text \<open>
  A Go \<open>string\<close> is a sequence of bytes, here a \<^typ>\<open>string\<close> (a list of 8-bit
  \<^typ>\<open>char\<close>s); \<open>len\<close> is \<^const>\<open>length\<close>. The functions of package \<open>strings\<close>
  that the adapter calls are written out on bytes.
\<close>

definition HasPrefix :: "string \<Rightarrow> string \<Rightarrow> bool" where
  "HasPrefix s prefix = (take (length prefix) s = prefix)"

definition HasSuffix :: "string \<Rightarrow> string \<Rightarrow> bool" where
  "HasSuffix s suffix =
     (length suffix \<le> length s \<and> drop (length s - length suffix) s = suffix)"


fun Join :: "string list \<Rightarrow> string \<Rightarrow> string" where
  "Join [] sep = []"
| "Join [a] sep = a"
| "Join (a # b # elems) sep = a @ sep @ Join (b # elems) sep"

text \<open>The separator \<open>"\n\n"\<close> and the line feed.\<close>

definition LF :: char where
  "LF = CHR 0x0A"

definition blank_line :: string where
  "blank_line = [LF, LF]"

text \<open>
  \<open>strings.TrimSpace\<close> removes leading and trailing runes for which \<open>unicode.IsSpace\<close>
  holds. On bytes: the six ASCII white-space bytes, and the UTF-8 encodings of U+0085,
  U+00A0, U+1680, U+2000 to U+200A, U+2028, U+2029, U+202F, U+205F and U+3000. A byte that
  does not start one of these encodings decodes to a rune that is not white space (an
  invalid byte decodes to U+FFFD), and trimming stops there.
\<close>

definition asciiSpace :: "char \<Rightarrow> bool" where
  "asciiSpace c = (c = CHR 0x09 \<or> c = CHR 0x0A \<or> c = CHR 0x0B \<or> c = CHR 0x0C
                   \<or> c = CHR 0x0D \<or> c = CHR 0x20)"

definition spaceRunes :: "string list" where
  "spaceRunes =
     [[CHR 0xC2, CHR 0x85], [CHR 0xC2, CHR 0xA0], [CHR 0xE1, CHR 0x9A, CHR 0x80],
      [CHR 0xE2, CHR 0x80, CHR 0x80], [CHR 0xE2, CHR 0x80, CHR 0x81],
      [CHR 0xE2, CHR 0x80, CHR 0x82], [CHR 0xE2, CHR 0x80, CHR 0x83],
      [CHR 0xE2, CHR 0x80, CHR 0x84], [CHR 0xE2, CHR 0x80, CHR 0x85],
      [CHR 0xE2, CHR 0x80, CHR 0x86], [CHR 0xE2, CHR 0x80, CHR 0x87],
      [CHR 0xE2, CHR 0x80, CHR 0x88], [CHR 0xE2, CHR 0x80, CHR 0x89],
      [CHR 0xE2, CHR 0x80, CHR 0x8A], [CHR 0xE2, CHR 0x80, CHR 0xA8],
      [CHR 0xE2, CHR 0x80, CHR 0xA9], [CHR 0xE2, CHR 0x80, CHR 0xAF],
      [CHR 0xE2, CHR 0x81, CHR 0x9F], [CHR 0xE3, CHR 0x80, CHR 0x80]]"

text \<open>The width in bytes of the white-space rune a string starts (ends) with; 0 when
  it starts (ends) with none.\<close>

definition leadingSpace :: "string \<Rightarrow> nat" where
  "leadingSpace s =
     (case s of
        [] \<Rightarrow> 0
      | c # _ \<Rightarrow>
          if asciiSpace c then 1
          else (case find (HasPrefix s) spaceRunes of None \<Rightarrow> 0 | Some r \<Rightarrow> length r))"

definition trailingSpace :: "string \<Rightarrow> nat" where
  "trailingSpace s =
     (case rev s of
        [] \<Rightarrow> 0
      | c # _ \<Rightarrow>
          if asciiSpace c then 1
          else (case find (HasSuffix s) spaceRunes of None \<Rightarrow> 0 | Some r \<Rightarrow> length r))"

function TrimLeft :: "string \<Rightarrow> string" where
  "TrimLeft s = (if leadingSpace s = 0 then s else TrimLeft (drop (leadingSpace s) s))"
  by pat_completeness auto
termination
  by (relation "measure length") (auto simp: leadingSpace_def split: list.splits)

function TrimRight :: "string \<Rightarrow> string" where
  "TrimRight s =
     (if trailingSpace s = 0 then s else TrimRight (take (length s - trailingSpace s) s))"
  by pat_completeness auto
termination
  by (relation "measure length") (auto simp: trailingSpace_def split: list.splits)

declare TrimLeft.simps [simp del] TrimRight.simps [simp del]

definition TrimSpace :: "string \<Rightarrow> string" where
  "TrimSpace s = TrimRight (TrimLeft s)"

section \<open>Values of type \<open>interface{}\<close>\<close>

text \<open>
  What \<open>encoding/json\<close> decodes into an \<open>interface{}\<close>: \<open>nil\<close>, \<open>bool\<close>, \<open>float64\<close>,
  \<open>string\<close>, \<open>[]interface{}\<close> and \<open>map[string]interface{}\<close>; and the \<open>int\<close>s the adapter
  itself stores in the payloads it builds. A map is an association list; a key that is
  absent reads as \<open>nil\<close>.
\<close>

datatype json =
    JNull
  | JBool bool
  | JFloat real
  | JInt int
  | JString string
  | JArray "json list"
  | JObject "(string \<times> json) list"

type_synonym object = "(string \<times> json) list"

definition mlookup :: "object \<Rightarrow> string \<Rightarrow> json" where
  "mlookup mp k = (case map_of mp k of None \<Rightarrow> JNull | Some v \<Rightarrow> v)"

section \<open>Wire shapes\<close>

subsection \<open>Anthropic Messages API\<close>

text \<open>\<open>Input\<close> is a \<open>*json.RawMessage\<close>: \<open>None\<close> is the nil pointer, \<open>Some None\<close> a pointer
  to a nil slice, \<open>Some (Some b)\<close> a pointer to the bytes \<open>b\<close>.\<close>

record AnthropicContent =
  ac_Type :: string
  ac_Text :: string
  ac_ID :: string
  ac_Name :: string
  ac_Input :: "string option option"
  ac_ToolUseID :: string
  ac_Content :: json

record AnthropicMsg =
  am_Role :: string
  am_Content :: string

record AnthropicTool =
  at_Name :: string
  at_Description :: string
  at_InputSchema :: "object option"

record AnthropicMessageRequest =
  ar_Model :: string
  ar_System :: string
  ar_Messages :: "AnthropicMsg list"
  ar_Tools :: "AnthropicTool list"
  ar_MaxTokens :: int
  ar_Temperature :: "real option"
  ar_StopSequences :: "string list"
  ar_Stream :: bool

record AnthropicUsage =
  au_InputTokens :: int
  au_OutputTokens :: int

record AnthropicMessageResponse =
  resp_ID :: string
  resp_Type :: string
  resp_Role :: string
  resp_Model :: string
  resp_Content :: "object list"
  resp_StopReason :: "string option"
  resp_StopSequence :: "string option"
  resp_Usage :: "AnthropicUsage option"

subsection \<open>OpenAI Chat Completions API\<close>

record OpenAIToolCallFunction =
  tcf_Name :: string
  tcf_Arguments :: string

record OpenAIToolCall =
  tc_ID :: string
  tc_Type :: string
  tc_Function :: OpenAIToolCallFunction

record OpenAIMessage =
  om_Role :: string
  om_Content :: json
  om_Name :: string
  om_ToolCallID :: string
  om_ToolCalls :: "OpenAIToolCall list"

record OpenAIFunction =
  of_Name :: string
  of_Description :: string
  of_Parameters :: "object option"

record OpenAITool =
  ot_Type :: string
  ot_Function :: OpenAIFunction

record OpenAIChatRequest =
  or_Model :: string
  or_Messages :: "OpenAIMessage list"
  or_Tools :: "OpenAITool list"
  or_Temperature :: "real option"
  or_MaxTokens :: int
  or_Stop :: "string list"
  or_Stream :: bool

record OpenAIChoice =
  oc_Index :: int
  oc_FinishReason :: string
  oc_Message :: OpenAIMessage

record OpenAIUsage =
  ou_PromptTokens :: int
  ou_CompletionTokens :: int
  ou_TotalTokens :: int

record OpenAIChatResponse =
  ors_ID :: string
  ors_Object :: string
  ors_Model :: string
  ors_Choices :: "OpenAIChoice list"
  ors_Usage :: "OpenAIUsage option"

text \<open>The streaming chunk and its anonymous structs.\<close>

record ToolCallDelta =
  tcd_ID :: string
  tcd_Type :: string
  tcd_Index :: int
  tcd_Name :: string
  tcd_Arguments :: string

record ChunkDelta =
  cd_Role :: string
  cd_Content :: string
  cd_ToolCalls :: "ToolCallDelta list"

record ChunkChoice =
  cc_Index :: int
  cc_Delta :: ChunkDelta
  cc_FinishReason :: string

record OpenAIStreamChunk =
  sc_ID :: string
  sc_Object :: string
  sc_Model :: string
  sc_Choices :: "ChunkChoice list"

text \<open>The structs that \<open>ConvertAnthropicStreamToOpenAI\<close> decodes event payloads into; a
  map that is \<open>nil\<close> is \<open>None\<close>.\<close>

record BlockStart =
  bs_Type :: string
  bs_Index :: int
  bs_ContentBlock :: "object option"

record BlockDelta =
  bd_Type :: string
  bd_Index :: int
  bd_Delta :: "object option"

section \<open>The standard library, as parameters\<close>

text \<open>
  The adapter calls \<open>encoding/json\<close>, \<open>strings.ToLower\<close> and \<open>fmt.Sprintf("%d")\<close>; none of
  them is code of the repository. They are the fields of a record that every mapping takes
  as its first argument: one decoder for each Go type that \<open>json.Unmarshal\<close> is called at
  (\<open>None\<close> is a non-nil error), \<open>json.Valid\<close>, and \<open>json.Marshal\<close> at \<open>interface{}\<close> and at
  \<open>[]AnthropicContent\<close>. Nothing is assumed about them.
\<close>

record gostd =
  json_Valid :: "string \<Rightarrow> bool"
  Unmarshal_any :: "string \<Rightarrow> json option"
  Unmarshal_string :: "string \<Rightarrow> string option"
  Unmarshal_contents :: "string \<Rightarrow> AnthropicContent list option"
  Unmarshal_chunk :: "string \<Rightarrow> OpenAIStreamChunk option"
  Unmarshal_block_start :: "string \<Rightarrow> BlockStart option"
  Unmarshal_block_delta :: "string \<Rightarrow> BlockDelta option"
  Marshal :: "json \<Rightarrow> string"
  Marshal_contents :: "AnthropicContent list \<Rightarrow> string"
  ToLower :: "string \<Rightarrow> string"
  Sprintf_d :: "int \<Rightarrow> string"

datatype error =
    UnsupportedContent string
  | NoChoices
  | ContextErr

section \<open>Non-streaming response mapping, OpenAI to Anthropic\<close>

text \<open>
  The loop that the adapter writes four times over a \<open>[]interface{}\<close> content: the \<open>text\<close>
  of every element that is a map with \<open>type == "text"\<close> and a string \<open>text\<close> that is not
  blank.
\<close>

definition textParts :: "json list \<Rightarrow> string list" where
  "textParts arr =
     concat (map (\<lambda>it.
        case it of
          JObject mp \<Rightarrow>
            if mlookup mp ''type'' = JString ''text''
            then (case mlookup mp ''text'' of
                    JString ts \<Rightarrow> if TrimSpace ts \<noteq> [] then [ts] else []
                  | _ \<Rightarrow> [])
            else []
        | _ \<Rightarrow> []) arr)"

definition fallbackArgs :: "string \<Rightarrow> json" where
  "fallbackArgs arguments = JObject [(''_'', JString arguments)]"

definition toolUseBlock :: "gostd \<Rightarrow> OpenAIToolCall \<Rightarrow> object" where
  "toolUseBlock L tc =
     (let arguments = tcf_Arguments (tc_Function tc);
          argsObj =
            (if json_Valid L arguments
             then (case Unmarshal_any L arguments of
                     None \<Rightarrow> fallbackArgs arguments
                   | Some v \<Rightarrow> v)
             else fallbackArgs arguments)
      in [(''type'', JString ''tool_use''), (''id'', JString (tc_ID tc)),
          (''name'', JString (tcf_Name (tc_Function tc))), (''input'', argsObj)])"

definition choiceText :: "json \<Rightarrow> object list" where
  "choiceText c =
     (case c of
        JString s \<Rightarrow>
          if s \<noteq> [] then [[(''type'', JString ''text''), (''text'', JString s)]] else []
      | JArray arr \<Rightarrow>
          (let buf = textParts arr
           in if length buf > 0
              then [[(''type'', JString ''text''), (''text'', JString (Join buf blank_line))]]
              else [])
      | _ \<Rightarrow> [])"

definition mapStopReason :: "OpenAIChoice \<Rightarrow> string option" where
  "mapStopReason choice =
     (if oc_FinishReason choice \<noteq> []
      then (if length (om_ToolCalls (oc_Message choice)) > 0
            then Some ''tool_use'' else Some (oc_FinishReason choice))
      else None)"

text \<open>\<open>nanos\<close> is the reading of \<open>time.Now().UnixNano()\<close>.\<close>

definition mapOpenAIToAnthropic ::
  "gostd \<Rightarrow> int \<Rightarrow> OpenAIChatResponse \<Rightarrow> string \<Rightarrow> error + AnthropicMessageResponse" where
  "mapOpenAIToAnthropic L nanos oresp requestedModel =
     (case ors_Choices oresp of
        [] \<Rightarrow> Inl NoChoices
      | choice # _ \<Rightarrow>
          (let content = choiceText (om_Content (oc_Message choice))
                 @ map (toolUseBlock L) (om_ToolCalls (oc_Message choice));
               stopReason = mapStopReason choice;
               usage = (case ors_Usage oresp of
                          None \<Rightarrow> None
                        | Some u \<Rightarrow> Some \<lparr>au_InputTokens = ou_PromptTokens u,
                                           au_OutputTokens = ou_CompletionTokens u\<rparr>)
           in Inr \<lparr>resp_ID = ''msg_'' @ Sprintf_d L nanos, resp_Type = ''message'',
                   resp_Role = ''assistant'', resp_Model = requestedModel,
                   resp_Content = content, resp_StopReason = stopReason,
                   resp_StopSequence = None, resp_Usage = usage\<rparr>))"

definition OpenAIToAnthropic ::
  "gostd \<Rightarrow> int \<Rightarrow> OpenAIChatResponse \<Rightarrow> string \<Rightarrow> error + AnthropicMessageResponse" where
  "OpenAIToAnthropic L nanos oresp requestedModel =
     mapOpenAIToAnthropic L nanos oresp requestedModel"

section \<open>Request mapping, Anthropic to OpenAI\<close>

definition textContent :: "string \<Rightarrow> AnthropicContent" where
  "textContent s =
     \<lparr>ac_Type = ''text'', ac_Text = s, ac_ID = [], ac_Name = [], ac_Input = None,
      ac_ToolUseID = [], ac_Content = JNull\<rparr>"

text \<open>The second component is the flag \<open>wasString\<close> of the source.\<close>

definition parseAnthropicContent ::
  "gostd \<Rightarrow> string \<Rightarrow> error + (AnthropicContent list \<times> bool)" where
  "parseAnthropicContent L raw =
     (if length raw = 0 \<or> raw = ''null'' then Inr ([], False)
      else (case Unmarshal_string L raw of
              Some s \<Rightarrow> Inr ([textContent s], True)
            | None \<Rightarrow>
                (case Unmarshal_contents L raw of
                   Some arr \<Rightarrow> Inr (arr, False)
                 | None \<Rightarrow> Inl (UnsupportedContent raw))))"

definition mapToolsToOpenAI :: "AnthropicTool list \<Rightarrow> OpenAITool list" where
  "mapToolsToOpenAI tools =
     (if length tools = 0 then []
      else map (\<lambda>t. \<lparr>ot_Type = ''function'',
                      ot_Function = \<lparr>of_Name = at_Name t, of_Description = at_Description t,
                                      of_Parameters = at_InputSchema t\<rparr>\<rparr>) tools)"

definition plainMessage :: "string \<Rightarrow> json \<Rightarrow> OpenAIMessage" where
  "plainMessage role content =
     \<lparr>om_Role = role, om_Content = content, om_Name = [], om_ToolCallID = [],
      om_ToolCalls = []\<rparr>"

definition systemToOpenAI :: "gostd \<Rightarrow> string \<Rightarrow> OpenAIMessage option" where
  "systemToOpenAI L sysRaw =
     (if length sysRaw = 0 \<or> sysRaw = ''null'' then None
      else (case (case Unmarshal_string L sysRaw of
                    Some s \<Rightarrow> if TrimSpace s \<noteq> [] then Some s else None
                  | None \<Rightarrow> None) of
              Some s \<Rightarrow> Some (plainMessage ''system'' (JString s))
            | None \<Rightarrow>
                (case parseAnthropicContent L sysRaw of
                   Inl e \<Rightarrow> None
                 | Inr (parts, wasString) \<Rightarrow>
                     if length parts > 0
                     then (let buf = map ac_Text
                                  (filter (\<lambda>p. ac_Type p = ''text'' \<and> TrimSpace (ac_Text p) \<noteq> [])
                                     parts)
                           in if length buf > 0
                              then Some (plainMessage ''system'' (JString (Join buf blank_line)))
                              else None)
                     else None)))"

text \<open>
  The type switch on a \<open>tool_result\<close>'s \<open>Content\<close> (and, in the other direction, on a
  \<open>tool\<close> message's \<open>Content\<close>): a string as it is, \<open>nil\<close> as the empty string, anything
  else through \<open>json.Marshal\<close>.
\<close>

definition contentString :: "gostd \<Rightarrow> json \<Rightarrow> string" where
  "contentString L v = (case v of JString s \<Rightarrow> s | JNull \<Rightarrow> [] | _ \<Rightarrow> Marshal L v)"

text \<open>The user branch threads \<open>out\<close> and \<open>pendingUserText\<close>.\<close>

definition flushUser ::
  "OpenAIMessage list \<times> string list \<Rightarrow> OpenAIMessage list \<times> string list" where
  "flushUser st =
     (case st of (out, pendingUserText) \<Rightarrow>
        if length pendingUserText > 0
        then (out @ [plainMessage ''user'' (JString (Join pendingUserText blank_line))], [])
        else (out, pendingUserText))"

definition toolMessage :: "gostd \<Rightarrow> AnthropicContent \<Rightarrow> OpenAIMessage" where
  "toolMessage L p =
     \<lparr>om_Role = ''tool'', om_Content = JString (contentString L (ac_Content p)),
      om_Name = [], om_ToolCallID = ac_ToolUseID p, om_ToolCalls = []\<rparr>"

definition userPart ::
  "gostd \<Rightarrow> OpenAIMessage list \<times> string list \<Rightarrow> AnthropicContent
     \<Rightarrow> OpenAIMessage list \<times> string list" where
  "userPart L st p =
     (case st of (out, pendingUserText) \<Rightarrow>
        if ac_Type p = ''text''
        then (if TrimSpace (ac_Text p) \<noteq> [] then (out, pendingUserText @ [ac_Text p])
              else (out, pendingUserText))
        else if ac_Type p = ''tool_result''
        then (case flushUser (out, pendingUserText) of
                (out', pending') \<Rightarrow> (out' @ [toolMessage L p], pending'))
        else (out, pendingUserText))"

definition convertUser ::
  "gostd \<Rightarrow> OpenAIMessage list \<Rightarrow> AnthropicContent list \<Rightarrow> OpenAIMessage list" where
  "convertUser L out parts = fst (flushUser (foldl (userPart L) (out, []) parts))"

text \<open>The assistant branch threads \<open>textBuf\<close> and \<open>toolCalls\<close>.\<close>

definition assistantPart ::
  "string list \<times> OpenAIToolCall list \<Rightarrow> AnthropicContent
     \<Rightarrow> string list \<times> OpenAIToolCall list" where
  "assistantPart st p =
     (case st of (textBuf, toolCalls) \<Rightarrow>
        if ac_Type p = ''text''
        then (if ac_Text p \<noteq> [] then (textBuf @ [ac_Text p], toolCalls)
              else (textBuf, toolCalls))
        else if ac_Type p = ''tool_use''
        then (let args = (case ac_Input p of Some (Some b) \<Rightarrow> b | _ \<Rightarrow> ''{}'')
              in (textBuf,
                  toolCalls @ [\<lparr>tc_ID = ac_ID p, tc_Type = ''function'',
                                 tc_Function = \<lparr>tcf_Name = ac_Name p, tcf_Arguments = args\<rparr>\<rparr>]))
        else (textBuf, toolCalls))"

definition convertAssistant ::
  "OpenAIMessage list \<Rightarrow> AnthropicContent list \<Rightarrow> OpenAIMessage list" where
  "convertAssistant out parts =
     (case foldl assistantPart ([], []) parts of
        (textBuf, toolCalls) \<Rightarrow>
          out @ [\<lparr>om_Role = ''assistant'',
                   om_Content = (if length textBuf > 0 then JString (Join textBuf blank_line)
                                 else JNull),
                   om_Name = [], om_ToolCallID = [],
                   om_ToolCalls = (if length toolCalls > 0 then toolCalls else [])\<rparr>])"

fun convertMessages ::
  "gostd \<Rightarrow> OpenAIMessage list \<Rightarrow> AnthropicMsg list \<Rightarrow> error + OpenAIMessage list" where
  "convertMessages L out [] = Inr out"
| "convertMessages L out (m # ms) =
     (case parseAnthropicContent L (am_Content m) of
        Inl err \<Rightarrow> Inl err
      | Inr (parts, wasString) \<Rightarrow>
          convertMessages L
            (if am_Role m = ''user'' then convertUser L out parts
             else if am_Role m = ''assistant'' then convertAssistant out parts
             else out) ms)"

definition ConvertMessagesToOpenAI ::
  "gostd \<Rightarrow> AnthropicMessageRequest \<Rightarrow> error + OpenAIMessage list" where
  "ConvertMessagesToOpenAI L req =
     convertMessages L
       (case systemToOpenAI L (ar_System req) of None \<Rightarrow> [] | Some sm \<Rightarrow> [sm])
       (ar_Messages req)"

definition AnthropicToOpenAI ::
  "gostd \<Rightarrow> AnthropicMessageRequest \<Rightarrow> error + OpenAIChatRequest" where
  "AnthropicToOpenAI L areq =
     (case ConvertMessagesToOpenAI L areq of
        Inl err \<Rightarrow> Inl err
      | Inr msgs \<Rightarrow>
          Inr \<lparr>or_Model = ar_Model areq, or_Messages = msgs,
                or_Tools = mapToolsToOpenAI (ar_Tools areq),
                or_Temperature = ar_Temperature areq, or_MaxTokens = ar_MaxTokens areq,
                or_Stop = ar_StopSequences areq, or_Stream = ar_Stream areq\<rparr>)"

section \<open>Request mapping, OpenAI to Anthropic\<close>

definition mapToolsToAnthropic :: "gostd \<Rightarrow> OpenAITool list \<Rightarrow> AnthropicTool list" where
  "mapToolsToAnthropic L tools =
     (if length tools = 0 then []
      else map (\<lambda>t. \<lparr>at_Name = of_Name (ot_Function t),
                      at_Description = of_Description (ot_Function t),
                      at_InputSchema = of_Parameters (ot_Function t)\<rparr>)
             (filter (\<lambda>t. ToLower L (ot_Type t) = ''function'') tools))"

definition strconvQuote :: "gostd \<Rightarrow> string \<Rightarrow> string" where
  "strconvQuote L s = Marshal L (JString s)"

definition toolUseContent :: "OpenAIToolCall \<Rightarrow> AnthropicContent" where
  "toolUseContent tc =
     \<lparr>ac_Type = ''tool_use'', ac_Text = [], ac_ID = tc_ID tc,
      ac_Name = tcf_Name (tc_Function tc),
      ac_Input = Some (if tcf_Arguments (tc_Function tc) \<noteq> []
                       then Some (tcf_Arguments (tc_Function tc)) else None),
      ac_ToolUseID = [], ac_Content = JNull\<rparr>"

text \<open>One round of the loop over \<open>oreq.Messages\<close>, on \<open>systemStr\<close> and \<open>msgs\<close>.\<close>

definition requestStep ::
  "gostd \<Rightarrow> string \<times> AnthropicMsg list \<Rightarrow> OpenAIMessage \<Rightarrow> string \<times> AnthropicMsg list" where
  "requestStep L st m =
     (case st of (systemStr, msgs) \<Rightarrow>
        if om_Role m = ''system''
        then (if systemStr = []
              then (case om_Content m of
                      JString s \<Rightarrow> (s, msgs)
                    | JArray arr \<Rightarrow>
                        (let buf = textParts arr
                         in if length buf > 0 then (Join buf blank_line, msgs)
                            else (systemStr, msgs))
                    | _ \<Rightarrow> (systemStr, msgs))
              else (systemStr, msgs))
        else if om_Role m = ''user''
        then (case om_Content m of
                JString s \<Rightarrow>
                  (systemStr,
                   msgs @ [\<lparr>am_Role = ''user'',
                             am_Content = Marshal_contents L [textContent s]\<rparr>])
              | JArray arr \<Rightarrow>
                  (let parts = map textContent (textParts arr)
                   in if length parts > 0
                      then (systemStr,
                            msgs @ [\<lparr>am_Role = ''user'',
                                      am_Content = Marshal_contents L parts\<rparr>])
                      else (systemStr, msgs))
              | _ \<Rightarrow> (systemStr, msgs))
        else if om_Role m = ''assistant''
        then (let parts =
                    (case om_Content m of
                       JString s \<Rightarrow> if TrimSpace s \<noteq> [] then [textContent s] else []
                     | JArray arr \<Rightarrow> map textContent (textParts arr)
                     | _ \<Rightarrow> [])
                    @ map toolUseContent (om_ToolCalls m)
              in if length parts > 0
                 then (systemStr,
                       msgs @ [\<lparr>am_Role = ''assistant'',
                                 am_Content = Marshal_contents L parts\<rparr>])
                 else (systemStr, msgs))
        else if om_Role m = ''tool''
        then (let parts = [\<lparr>ac_Type = ''tool_result'', ac_Text = [], ac_ID = [], ac_Name = [],
                             ac_Input = None, ac_ToolUseID = om_ToolCallID m,
                             ac_Content = JString (contentString L (om_Content m))\<rparr>]
              in (systemStr,
                  msgs @ [\<lparr>am_Role = ''user'', am_Content = Marshal_contents L parts\<rparr>]))
        else (systemStr, msgs))"

definition OpenAIToAnthropicRequest ::
  "gostd \<Rightarrow> OpenAIChatRequest \<Rightarrow> error + AnthropicMessageRequest" where
  "OpenAIToAnthropicRequest L oreq =
     (case foldl (requestStep L) ([], []) (or_Messages oreq) of
        (systemStr, msgs) \<Rightarrow>
          Inr \<lparr>ar_Model = or_Model oreq,
                ar_System = (if systemStr \<noteq> [] then strconvQuote L systemStr else []),
                ar_Messages = msgs,
                ar_Tools = mapToolsToAnthropic L (or_Tools oreq),
                ar_MaxTokens = or_MaxTokens oreq,
                ar_Temperature = or_Temperature oreq,
                ar_StopSequences = or_Stop oreq,
                ar_Stream = or_Stream oreq\<rparr>)"

section \<open>Streams as lines\<close>





section \<open>Forward stream translation, OpenAI chunks to Anthropic events\<close>





















section \<open>Reverse stream translation, Anthropic events to OpenAI chunks\<close>















section \<open>Notions the properties are stated with\<close>












text \<open>
  The system text that one \<open>system\<close> message of an OpenAI request stands for: a string
  content as it is; for an array content its text parts, which are the elements
  \<^const>\<open>textParts\<close> collects (maps of type \<open>text\<close> whose \<open>text\<close> is a string that is not
  blank), joined by a blank line; nothing for any other content.
\<close>

definition systemText :: "json \<Rightarrow> string" where
  "systemText c =
     (case c of JString s \<Rightarrow> s | JArray arr \<Rightarrow> Join (textParts arr) blank_line | _ \<Rightarrow> [])"

text \<open>A raw Anthropic content that is neither absent, nor a JSON string, nor a list of
  content blocks.\<close>

definition unsupported :: "gostd \<Rightarrow> string \<Rightarrow> bool" where
  "unsupported L raw =
     (raw \<noteq> [] \<and> raw \<noteq> ''null'' \<and> Unmarshal_string L raw = None
      \<and> Unmarshal_contents L raw = None)"

text \<open>The texts that the blocks \<open>ps\<close> of a user message leave pending, and the user message
  that flushing the pending texts \<open>ts\<close> appends.\<close>

definition pendingTexts :: "AnthropicContent list \<Rightarrow> string list" where
  "pendingTexts ps =
     map ac_Text (filter (\<lambda>p. ac_Type p = ''text'' \<and> TrimSpace (ac_Text p) \<noteq> []) ps)"

definition flushed :: "string list \<Rightarrow> OpenAIMessage list" where
  "flushed ts = (if ts = [] then [] else [plainMessage ''user'' (JString (Join ts blank_line))])"

text \<open>The three messages that the user message with the blocks \<open>A\<close>, result of \<open>call_1\<close>,
  \<open>B\<close> must produce.\<close>

definition threeMessages :: "OpenAIMessage list" where
  "threeMessages =
     [plainMessage ''user'' (JString ''A''),
      \<lparr>om_Role = ''tool'', om_Content = JString ''RESULT'', om_Name = [],
       om_ToolCallID = ''call_1'', om_ToolCalls = []\<rparr>,
      plainMessage ''user'' (JString ''B'')]"

section \<open>A decoder table for the examples\<close>

text \<open>
  The examples below run the mappings on concrete inputs. \<open>table\<close> stands for the
  standard library there: on the strings and values the examples hand to it, each field
  returns what \<open>encoding/json\<close>, \<open>strings.ToLower\<close> and \<open>fmt.Sprintf\<close> return (no example
  contains a JSON string, so \<open>Unmarshal_string\<close> always reports an error); on any other
  string a decoder reports an error.
\<close>

definition plainChunk :: "ChunkDelta \<Rightarrow> OpenAIStreamChunk" where
  "plainChunk d =
     \<lparr>sc_ID = [], sc_Object = [], sc_Model = [],
      sc_Choices = [\<lparr>cc_Index = 0, cc_Delta = d, cc_FinishReason = []\<rparr>]\<rparr>"

definition toolDelta :: "int \<Rightarrow> string \<Rightarrow> string \<Rightarrow> string \<Rightarrow> ChunkDelta" where
  "toolDelta i callID name args =
     \<lparr>cd_Role = [], cd_Content = [],
      cd_ToolCalls = [\<lparr>tcd_ID = callID, tcd_Type = [], tcd_Index = i, tcd_Name = name,
                       tcd_Arguments = args\<rparr>]\<rparr>"

definition resultContent :: "string \<Rightarrow> json \<Rightarrow> AnthropicContent" where
  "resultContent callID v =
     \<lparr>ac_Type = ''tool_result'', ac_Text = [], ac_ID = [], ac_Name = [], ac_Input = None,
      ac_ToolUseID = callID, ac_Content = v\<rparr>"


definition start_text :: string where
  \<open>start_text = ''{"type":"content_block_start","index":0,"content_block":{"type":"text"}}''\<close>

definition start_alpha :: string where
  \<open>start_alpha = ''{"type":"content_block_start","index":1,"content_block":{"type":"tool_use","id":"call_a","name":"alpha"}}''\<close>

definition start_beta :: string where
  \<open>start_beta = ''{"type":"content_block_start","index":2,"content_block":{"type":"tool_use","id":"call_b","name":"beta"}}''\<close>

definition delta_alpha :: string where
  \<open>delta_alpha = ''{"type":"content_block_delta","index":1,"delta":{"type":"input_json_delta","partial_json":"{}"}}''\<close>

definition toolStart :: "int \<Rightarrow> string \<Rightarrow> string \<Rightarrow> BlockStart" where
  "toolStart i callID name =
     \<lparr>bs_Type = ''content_block_start'', bs_Index = i,
      bs_ContentBlock = Some [(''type'', JString ''tool_use''), (''id'', JString callID),
                              (''name'', JString name)]\<rparr>"

definition argsDelta :: "int \<Rightarrow> string \<Rightarrow> BlockDelta" where
  "argsDelta i piece =
     \<lparr>bd_Type = ''content_block_delta'', bd_Index = i,
      bd_Delta = Some [(''type'', JString ''input_json_delta''),
                       (''partial_json'', JString piece)]\<rparr>"

definition table :: gostd where
  \<open>table =
     \<lparr>json_Valid = (\<lambda>s. s = ''{}''),
      Unmarshal_any = map_of [(''{}'', JObject [])],
      Unmarshal_string = Map.empty,
      Unmarshal_contents = map_of
        [(''[{"type":"text","text":"A"},{"type":"tool_result","tool_use_id":"call_1","content":"RESULT"},{"type":"text","text":"B"}]'',
          [textContent ''A'', resultContent ''call_1'' (JString ''RESULT''), textContent ''B''])],
      Unmarshal_chunk = map_of
        [(''{"choices":[{"delta":{"content":"Hello"}}]}'',
          plainChunk \<lparr>cd_Role = [], cd_Content = ''Hello'', cd_ToolCalls = []\<rparr>),
         (''{"choices":[{"delta":{"tool_calls":[{"index":1,"id":"call_b","function":{"name":"beta","arguments":"{}"}}]}}]}'',
          plainChunk (toolDelta 1 ''call_b'' ''beta'' ''{}'')),
         (''{"choices":[{"delta":{"tool_calls":[{"index":0,"id":"call_a","function":{"name":"alpha","arguments":"NOT_JSON"}}]}}]}'',
          plainChunk (toolDelta 0 ''call_a'' ''alpha'' ''NOT_JSON''))],
      Unmarshal_block_start = map_of
        [(start_text,
          \<lparr>bs_Type = ''content_block_start'', bs_Index = 0,
           bs_ContentBlock = Some [(''type'', JString ''text'')]\<rparr>),
         (start_alpha, toolStart 1 ''call_a'' ''alpha''),
         (start_beta, toolStart 2 ''call_b'' ''beta'')],
      Unmarshal_block_delta = map_of [(delta_alpha, argsDelta 1 ''{}'')],
      Marshal = (\<lambda>v. if v = JString (''A'' @ blank_line @ ''B'')
                    then ''"A'' @ [CHR 0x5C, CHR ''n'', CHR 0x5C, CHR ''n''] @ ''B"''
                    else if v = JArray [] then ''[]''
                    else (case v of JString s \<Rightarrow> ''"'' @ s @ ''"'' | _ \<Rightarrow> ''null'')),
      Marshal_contents = (\<lambda>ps. []),
      ToLower = (\<lambda>s. s),
      Sprintf_d = (\<lambda>n. if n = 0 then ''0'' else if n = 1 then ''1'' else if n = 2 then ''2''
                       else if n = 3 then ''3'' else ''4'')\<rparr>\<close>

text \<open>A response with one tool call, and three streamed bodies.\<close>

definition toolCallResponse :: "string \<Rightarrow> string \<Rightarrow> OpenAIChoice list \<Rightarrow> OpenAIChatResponse" where
  "toolCallResponse finish args others =
     \<lparr>ors_ID = [], ors_Object = [], ors_Model = [],
      ors_Choices =
        \<lparr>oc_Index = 0, oc_FinishReason = finish,
         oc_Message = \<lparr>om_Role = ''assistant'', om_Content = JNull, om_Name = [],
                        om_ToolCallID = [],
                        om_ToolCalls = [\<lparr>tc_ID = ''t1'', tc_Type = ''function'',
                                         tc_Function = \<lparr>tcf_Name = ''weird'',
                                                         tcf_Arguments = args\<rparr>\<rparr>]\<rparr>\<rparr>
        # others,
      ors_Usage = None\<rparr>"




text \<open>Requests, and an Anthropic event stream with a text block and two tool invocations
  whose events interleave.\<close>

definition plainRequest :: "AnthropicMsg list \<Rightarrow> AnthropicMessageRequest" where
  "plainRequest msgs =
     \<lparr>ar_Model = ''claude-x'', ar_System = [], ar_Messages = msgs, ar_Tools = [],
      ar_MaxTokens = 0, ar_Temperature = None, ar_StopSequences = [], ar_Stream = False\<rparr>"

definition interleaved :: AnthropicMsg where
  \<open>interleaved =
     \<lparr>am_Role = ''user'',
      am_Content = ''[{"type":"text","text":"A"},{"type":"tool_result","tool_use_id":"call_1","content":"RESULT"},{"type":"text","text":"B"}]''\<rparr>\<close>

definition chatRequest :: "OpenAIMessage list \<Rightarrow> OpenAIChatRequest" where
  "chatRequest msgs =
     \<lparr>or_Model = ''gpt-x'', or_Messages = msgs, or_Tools = [], or_Temperature = None,
      or_MaxTokens = 0, or_Stop = [], or_Stream = False\<rparr>"

definition textPart :: "string \<Rightarrow> json" where
  "textPart s = JObject [(''type'', JString ''text''), (''text'', JString s)]"


section \<open>Properties of the response mapping\<close>

text \<open>
  Claim C10. \<open>OpenAIToAnthropic\<close> on a response whose list of choices is empty returns the
  error \<open>no choices\<close> and no response. On a response with at least one choice it returns
  a response, and the same one whatever choices follow the first.
\<close>

theorem C10_first_choice_only:
  "OpenAIToAnthropic L nanos (oresp\<lparr>ors_Choices := []\<rparr>) m = Inl NoChoices
   \<and> OpenAIToAnthropic L nanos (oresp\<lparr>ors_Choices := c # cs\<rparr>) m
       = OpenAIToAnthropic L nanos (oresp\<lparr>ors_Choices := [c]\<rparr>) m
   \<and> (\<exists>r. OpenAIToAnthropic L nanos (oresp\<lparr>ors_Choices := c # cs\<rparr>) m = Inr r)"
  by (simp add: OpenAIToAnthropic_def mapOpenAIToAnthropic_def Let_def)

text \<open>
  Claim C6, as the code has it. When the first choice reports a finish reason, the stop
  reason is \<open>tool_use\<close> if the choice has a tool call, whatever the reason reported, and
  the reported reason itself if it has none. When the finish reason is empty there is no
  stop reason, with or without tool calls.
\<close>

theorem C6_stop_reason:
  assumes "ors_Choices oresp = choice # rest"
  shows "\<exists>r. OpenAIToAnthropic L nanos oresp m = Inr r
     \<and> resp_StopReason r =
         (if oc_FinishReason choice = [] then None
          else if om_ToolCalls (oc_Message choice) \<noteq> [] then Some ''tool_use''
          else Some (oc_FinishReason choice))"
  using assms
  by (simp add: OpenAIToAnthropic_def mapOpenAIToAnthropic_def Let_def mapStopReason_def)

theorem C6_witness:
  "ors_Choices (toolCallResponse ''length'' ''{}'' []) \<noteq> []
   \<and> (\<exists>r. OpenAIToAnthropic table 0 (toolCallResponse ''length'' ''{}'' []) ''claude-x'' = Inr r
          \<and> resp_StopReason r = Some ''tool_use'')"
  using C6_stop_reason [of "toolCallResponse ''length'' ''{}'' []"
      "hd (ors_Choices (toolCallResponse ''length'' ''{}'' []))" "[]" table 0 "''claude-x''"]
  by (simp add: toolCallResponse_def)

text \<open>The claim as it is written fails for a response that has a tool call and reports no
  finish reason: its stop reason is absent, not \<open>tool_use\<close>.\<close>

theorem C6_counterexample:
  "OpenAIToAnthropic table 0 (toolCallResponse [] ''{}'' []) ''claude-x''
     = Inr \<lparr>resp_ID = ''msg_0'', resp_Type = ''message'', resp_Role = ''assistant'',
            resp_Model = ''claude-x'',
            resp_Content = [[(''type'', JString ''tool_use''), (''id'', JString ''t1''),
                             (''name'', JString ''weird''), (''input'', JObject [])]],
            resp_StopReason = None, resp_StopSequence = None, resp_Usage = None\<rparr>"
  by (simp add: OpenAIToAnthropic_def mapOpenAIToAnthropic_def toolCallResponse_def Let_def
      choiceText_def toolUseBlock_def mapStopReason_def table_def)

section \<open>Properties of the forward stream translation\<close>

subsection \<open>The read loop\<close>






















subsection \<open>The claims\<close>









subsection \<open>Arguments that are not valid JSON\<close>





section \<open>Properties of the reverse stream translation\<close>















section \<open>Properties of the request mappings\<close>

subsection \<open>OpenAI to Anthropic\<close>

lemma requestStep_fst:
  "fst (requestStep L (s, msgs) m) =
     (if om_Role m = ''system'' \<and> s = [] then systemText (om_Content m) else s)"
  by (auto simp: requestStep_def systemText_def Let_def split: json.splits)

lemma requestStep_snd:
  "snd (requestStep L (s, msgs) m) =
     (if om_Role m = ''system'' then msgs else snd (requestStep L ([], msgs) m))"
  by (auto simp: requestStep_def Let_def split: json.splits)

lemma requestFold_fst:
  "fst (foldl (requestStep L) (s, msgs) ms) =
     (if s \<noteq> [] then s
      else (case find (\<lambda>m. om_Role m = ''system'' \<and> systemText (om_Content m) \<noteq> []) ms of
              None \<Rightarrow> []
            | Some m \<Rightarrow> systemText (om_Content m)))"
proof (induction ms arbitrary: s msgs)
  case Nil
  then show ?case by simp
next
  case (Cons m ms)
  obtain s' msgs' where step: "requestStep L (s, msgs) m = (s', msgs')"
    by (cases "requestStep L (s, msgs) m")
  have "s' = (if om_Role m = ''system'' \<and> s = [] then systemText (om_Content m) else s)"
    using requestStep_fst [of L s msgs m] step by simp
  then show ?case
    using Cons [of s' msgs'] by (simp add: step)
qed

lemma requestFold_snd:
  "snd (foldl (requestStep L) (s, msgs) ms)
     = snd (foldl (requestStep L) (s', msgs) (filter (\<lambda>m. om_Role m \<noteq> ''system'') ms))"
proof (induction ms arbitrary: s s' msgs)
  case Nil
  then show ?case by simp
next
  case (Cons m ms)
  obtain t msgs1 where step: "requestStep L (s, msgs) m = (t, msgs1)"
    by (cases "requestStep L (s, msgs) m")
  obtain t' msgs2 where step': "requestStep L (s', msgs) m = (t', msgs2)"
    by (cases "requestStep L (s', msgs) m")
  have 1: "msgs1 = (if om_Role m = ''system'' then msgs else snd (requestStep L ([], msgs) m))"
    using requestStep_snd [of L s msgs m] step by simp
  have 2: "msgs2 = (if om_Role m = ''system'' then msgs else snd (requestStep L ([], msgs) m))"
    using requestStep_snd [of L s' msgs m] step' by simp
  show ?case
  proof (cases "om_Role m = ''system''")
    case True
    then show ?thesis using Cons [of t msgs s'] 1 by (simp add: step)
  next
    case False
    then show ?thesis using Cons [of t msgs1 t'] 1 2 by (simp add: step step')
  qed
qed

text \<open>
  Claim C8. \<open>OpenAIToAnthropicRequest\<close> always returns a request. Its system field is
  determined by the first \<open>system\<close> message whose system text is not empty: it is that
  text, quoted as a JSON string; it is absent when there is no such message. An
  array-shaped content is flattened to the texts of its text parts joined by a blank
  line. No \<open>system\<close> message adds anything to the messages of the result: the messages are
  those of the request with its \<open>system\<close> messages removed.
\<close>

theorem C8_first_system_message:
  "(\<exists>r. OpenAIToAnthropicRequest L oreq = Inr r
      \<and> ar_System r =
          (case find (\<lambda>m. om_Role m = ''system'' \<and> systemText (om_Content m) \<noteq> [])
                  (or_Messages oreq) of
             None \<Rightarrow> []
           | Some m \<Rightarrow> strconvQuote L (systemText (om_Content m))))
   \<and> map_sum id ar_Messages (OpenAIToAnthropicRequest L oreq)
       = map_sum id ar_Messages
           (OpenAIToAnthropicRequest L
              (oreq\<lparr>or_Messages := filter (\<lambda>m. om_Role m \<noteq> ''system'') (or_Messages oreq)\<rparr>))"
proof
  obtain s msgs where run: "foldl (requestStep L) ([], []) (or_Messages oreq) = (s, msgs)"
    by (cases "foldl (requestStep L) ([], []) (or_Messages oreq)")
  have "s = (case find (\<lambda>m. om_Role m = ''system'' \<and> systemText (om_Content m) \<noteq> [])
                  (or_Messages oreq) of
             None \<Rightarrow> [] | Some m \<Rightarrow> systemText (om_Content m))"
    using requestFold_fst [of L "[]" "[]" "or_Messages oreq"] run by simp
  then show "\<exists>r. OpenAIToAnthropicRequest L oreq = Inr r
      \<and> ar_System r =
          (case find (\<lambda>m. om_Role m = ''system'' \<and> systemText (om_Content m) \<noteq> [])
                  (or_Messages oreq) of
             None \<Rightarrow> []
           | Some m \<Rightarrow> strconvQuote L (systemText (om_Content m)))"
    by (auto simp: OpenAIToAnthropicRequest_def run split: option.splits dest: find_Some_iff [THEN iffD1])
  show "map_sum id ar_Messages (OpenAIToAnthropicRequest L oreq)
       = map_sum id ar_Messages
           (OpenAIToAnthropicRequest L
              (oreq\<lparr>or_Messages := filter (\<lambda>m. om_Role m \<noteq> ''system'') (or_Messages oreq)\<rparr>))"
    using requestFold_snd [of L "[]" "[]" "or_Messages oreq" "[]"]
    by (cases "foldl (requestStep L) ([], []) (or_Messages oreq)";
        cases "foldl (requestStep L) ([], [])
                 (filter (\<lambda>m. om_Role m \<noteq> ''system'') (or_Messages oreq))")
       (simp add: OpenAIToAnthropicRequest_def)
qed

theorem C8_witness:
  \<open>OpenAIToAnthropicRequest table
     (chatRequest [plainMessage ''system'' (JString []),
                   plainMessage ''system'' (JArray [textPart ''A'', textPart '' '', textPart ''B'']),
                   plainMessage ''system'' (JString ''later'')])
   = Inr \<lparr>ar_Model = ''gpt-x'',
          ar_System = ''"A'' @ [CHR 0x5C, CHR ''n'', CHR 0x5C, CHR ''n''] @ ''B"'',
          ar_Messages = [], ar_Tools = [], ar_MaxTokens = 0, ar_Temperature = None,
          ar_StopSequences = [], ar_Stream = False\<rparr>\<close>
proof -
  have out: \<open>OpenAIToAnthropicRequest table
     (chatRequest [plainMessage ''system'' (JString []),
                   plainMessage ''system'' (JArray [textPart ''A'', textPart '' '', textPart ''B'']),
                   plainMessage ''system'' (JString ''later'')])
   = Inr \<lparr>ar_Model = ''gpt-x'',
          ar_System = ''"A'' @ [CHR 0x5C, CHR ''n'', CHR 0x5C, CHR ''n''] @ ''B"'',
          ar_Messages = [], ar_Tools = [], ar_MaxTokens = 0, ar_Temperature = None,
          ar_StopSequences = [], ar_Stream = False\<rparr>\<close>
    by code_simp
  show ?thesis
    using C8_first_system_message [of table
        "chatRequest [plainMessage ''system'' (JString []),
                   plainMessage ''system'' (JArray [textPart ''A'', textPart '' '', textPart ''B'']),
                   plainMessage ''system'' (JString ''later'')]"] out
    by simp
qed

subsection \<open>Content of an unsupported shape\<close>

lemma parse_unsupported:
  "parseAnthropicContent L raw =
     (if unsupported L raw then Inl (UnsupportedContent raw)
      else Inr (case_sum (\<lambda>e. ([], False)) id (parseAnthropicContent L raw)))"
  by (auto simp: parseAnthropicContent_def unsupported_def split: option.splits)

lemma convertMessages_find:
  "case find (\<lambda>m. unsupported L (am_Content m)) ms of
     Some m \<Rightarrow> convertMessages L out ms = Inl (UnsupportedContent (am_Content m))
   | None \<Rightarrow> (\<exists>res. convertMessages L out ms = Inr res)"
proof (induction ms arbitrary: out)
  case Nil
  then show ?case by simp
next
  case (Cons m ms)
  show ?case
  proof (cases "unsupported L (am_Content m)")
    case True
    then show ?thesis using parse_unsupported [of L "am_Content m"] by simp
  next
    case False
    then obtain parts w where p: "parseAnthropicContent L (am_Content m) = Inr (parts, w)"
      using parse_unsupported [of L "am_Content m"]
      by (cases "parseAnthropicContent L (am_Content m)") auto
    define out' where "out' = (if am_Role m = ''user'' then convertUser L out parts
             else if am_Role m = ''assistant'' then convertAssistant out parts
             else out)"
    have step: "convertMessages L out (m # ms) = convertMessages L out' ms"
      by (simp add: p out'_def)
    show ?thesis
      using False Cons [of out']
      by (auto simp: step simp del: convertMessages.simps split: option.splits)
  qed
qed

text \<open>
  Claim C5, as the code has it. From Anthropic to OpenAI, the mapping fails exactly when
  some message has a content that is not empty, is not the literal \<open>null\<close>, and decodes
  neither as a JSON string nor as a list of content blocks; the error names the content of
  the first such message, and no request is produced. From OpenAI to Anthropic the
  mapping never fails.
\<close>

theorem C5_unsupported_content:
  "(case find (\<lambda>m. unsupported L (am_Content m)) (ar_Messages areq) of
      Some m \<Rightarrow> AnthropicToOpenAI L areq = Inl (UnsupportedContent (am_Content m))
                \<and> ConvertMessagesToOpenAI L areq = Inl (UnsupportedContent (am_Content m))
    | None \<Rightarrow> (\<exists>r. AnthropicToOpenAI L areq = Inr r))
   \<and> (\<exists>r. OpenAIToAnthropicRequest L oreq = Inr r)"
proof
  show "case find (\<lambda>m. unsupported L (am_Content m)) (ar_Messages areq) of
      Some m \<Rightarrow> AnthropicToOpenAI L areq = Inl (UnsupportedContent (am_Content m))
                \<and> ConvertMessagesToOpenAI L areq = Inl (UnsupportedContent (am_Content m))
    | None \<Rightarrow> (\<exists>r. AnthropicToOpenAI L areq = Inr r)"
    using convertMessages_find [of L "case systemToOpenAI L (ar_System areq) of None \<Rightarrow> [] | Some sm \<Rightarrow> [sm]"
        "ar_Messages areq"]
    by (auto simp: AnthropicToOpenAI_def ConvertMessagesToOpenAI_def split: option.splits)
  show "\<exists>r. OpenAIToAnthropicRequest L oreq = Inr r"
    by (simp add: OpenAIToAnthropicRequest_def split: prod.splits)
qed

theorem C5_witness:
  "find (\<lambda>m. unsupported table (am_Content m))
       (ar_Messages (plainRequest [interleaved, \<lparr>am_Role = ''user'', am_Content = ''42''\<rparr>]))
     = Some \<lparr>am_Role = ''user'', am_Content = ''42''\<rparr>
   \<and> AnthropicToOpenAI table (plainRequest [interleaved, \<lparr>am_Role = ''user'', am_Content = ''42''\<rparr>])
       = Inl (UnsupportedContent ''42'')"
proof -
  have f: "find (\<lambda>m. unsupported table (am_Content m))
       (ar_Messages (plainRequest [interleaved, \<lparr>am_Role = ''user'', am_Content = ''42''\<rparr>]))
     = Some \<lparr>am_Role = ''user'', am_Content = ''42''\<rparr>"
    by code_simp
  show ?thesis
    using C5_unsupported_content [of table
        "plainRequest [interleaved, \<lparr>am_Role = ''user'', am_Content = ''42''\<rparr>]"] f
    by simp
qed

text \<open>The claim as it is written fails from OpenAI to Anthropic: a user message whose
  content is a JSON object, neither a string nor an array, is dropped without an error.\<close>

theorem C5_counterexample:
  "OpenAIToAnthropicRequest table
     (chatRequest [plainMessage ''user'' (JObject [(''text'', JString ''hi'')])])
   = Inr \<lparr>ar_Model = ''gpt-x'', ar_System = [], ar_Messages = [], ar_Tools = [],
          ar_MaxTokens = 0, ar_Temperature = None, ar_StopSequences = [], ar_Stream = False\<rparr>"
  by code_simp

subsection \<open>Anthropic to OpenAI: the blocks of a user message\<close>

lemma flushUser_eq: "flushUser (out, ts) = (out @ flushed ts, [])"
  by (simp add: flushUser_def flushed_def)

lemma userFold_texts:
  "filter (\<lambda>p. ac_Type p = ''tool_result'') ps = [] \<Longrightarrow>
   foldl (userPart L) (out, pend) ps = (out, pend @ pendingTexts ps)"
proof (induction ps arbitrary: pend)
  case Nil
  then show ?case by (simp add: pendingTexts_def)
next
  case (Cons p ps)
  then show ?case
    by (auto simp: userPart_def pendingTexts_def split: if_splits)
qed

lemma userPart_result:
  "ac_Type r = ''tool_result'' \<Longrightarrow>
   userPart L (out, pend) r = (out @ flushed pend @ [toolMessage L r], [])"
  by (simp add: userPart_def flushUser_eq)

lemma convertUser_texts:
  "filter (\<lambda>p. ac_Type p = ''tool_result'') ps = [] \<Longrightarrow>
   convertUser L out ps = out @ flushed (pendingTexts ps)"
  by (simp add: convertUser_def userFold_texts flushUser_eq)

lemma convertUser_result:
  "filter (\<lambda>p. ac_Type p = ''tool_result'') ps = [] \<Longrightarrow> ac_Type r = ''tool_result'' \<Longrightarrow>
   convertUser L out (ps @ r # qs) =
     convertUser L (out @ flushed (pendingTexts ps) @ [toolMessage L r]) qs"
  by (simp add: convertUser_def userFold_texts userPart_result)

lemma userFold_extends:
  "\<exists>ys. fst (foldl (userPart L) (out @ xs, pend) ps) = out @ ys"
proof (induction ps arbitrary: xs pend)
  case Nil
  then show ?case by simp
next
  case (Cons p ps)
  show ?case
  proof (cases "ac_Type p = ''tool_result''")
    case True
    then show ?thesis
      using Cons [of "xs @ flushed pend @ [toolMessage L p]" "[]"]
      by (simp add: userPart_result [of p L "out @ xs" pend, simplified])
  next
    case False
    then show ?thesis
      using Cons [of xs pend] Cons [of xs "pend @ [ac_Text p]"]
      by (simp add: userPart_def)
  qed
qed

lemma convertUser_extends: "\<exists>ys. convertUser L out ps = out @ ys"
proof -
  obtain o' pend where f: "foldl (userPart L) (out, []) ps = (o', pend)"
    by (cases "foldl (userPart L) (out, []) ps")
  obtain ys where "o' = out @ ys"
    using userFold_extends [of L out "[]" "[]" ps] f by auto
  then show ?thesis
    by (simp add: convertUser_def f flushUser_eq)
qed

lemma convertAssistant_extends: "\<exists>ys. convertAssistant out ps = out @ ys"
  by (simp add: convertAssistant_def split: prod.splits)

lemma convertMessages_extends:
  "convertMessages L out ms = Inr res \<Longrightarrow> \<exists>ys. res = out @ ys"
proof (induction ms arbitrary: out)
  case Nil
  then show ?case by simp
next
  case (Cons m ms)
  then obtain parts w where p: "parseAnthropicContent L (am_Content m) = Inr (parts, w)"
    by (cases "parseAnthropicContent L (am_Content m)") auto
  define out' where "out' = (if am_Role m = ''user'' then convertUser L out parts
             else if am_Role m = ''assistant'' then convertAssistant out parts
             else out)"
  have "\<exists>zs. out' = out @ zs"
    using convertUser_extends [of L out parts] convertAssistant_extends [of out parts]
    by (auto simp: out'_def)
  moreover have "convertMessages L out' ms = Inr res"
    using Cons.prems by (simp add: p out'_def)
  ultimately show ?case
    using Cons.IH [of out'] by auto
qed

lemma convertMessages_append:
  "convertMessages L out (xs @ ys) =
     (case convertMessages L out xs of Inl e \<Rightarrow> Inl e | Inr out' \<Rightarrow> convertMessages L out' ys)"
  by (induction xs arbitrary: out) (auto split: sum.splits)

lemma convertMessages_Cons:
  "convertMessages L out (m # ms) =
     (case convertMessages L out [m] of Inl e \<Rightarrow> Inl e | Inr out' \<Rightarrow> convertMessages L out' ms)"
  using convertMessages_append [of L out "[m]" ms] by (simp del: convertMessages.simps)

lemma trim_A_B: "TrimSpace ''A'' = ''A''" "TrimSpace ''B'' = ''B''"
  by code_simp+

text \<open>
  Claim C3. A user message whose blocks are the text \<open>A\<close>, a tool result for \<open>call_1\<close> with
  content \<open>RESULT\<close>, and the text \<open>B\<close> adds exactly three messages, in this order, to what
  the messages before it produce: user \<open>A\<close>, tool (\<open>call_1\<close>, \<open>RESULT\<close>), user \<open>B\<close>; messages
  after it only append. In general, blocks with no tool result among them produce the
  pending texts flushed as one user message (none if no text is pending); a tool result
  after such blocks flushes them first and then becomes a tool message of its own, and
  the conversion goes on with nothing pending. The tool message carries the id of the
  call and, as content, the payload if it is a string, the empty string if there is no
  payload (\<open>nil\<close>), and the \<open>json.Marshal\<close> text of any other payload.
\<close>

theorem C3_user_blocks:
  "(am_Role m = ''user''
      \<and> parseAnthropicContent L (am_Content m) = Inr ([a, r, b], w)
      \<and> ac_Type a = ''text'' \<and> ac_Text a = ''A''
      \<and> ac_Type r = ''tool_result'' \<and> ac_ToolUseID r = ''call_1''
      \<and> ac_Content r = JString ''RESULT''
      \<and> ac_Type b = ''text'' \<and> ac_Text b = ''B''
      \<and> ConvertMessagesToOpenAI L (req\<lparr>ar_Messages := before\<rparr>) = Inr xs \<longrightarrow>
      ConvertMessagesToOpenAI L (req\<lparr>ar_Messages := before @ [m]\<rparr>) = Inr (xs @ threeMessages)
      \<and> (ConvertMessagesToOpenAI L (req\<lparr>ar_Messages := before @ m # after\<rparr>) = Inr res \<longrightarrow>
           take (length xs + 3) res = xs @ threeMessages))
   \<and> (filter (\<lambda>p. ac_Type p = ''tool_result'') ps = [] \<longrightarrow>
        convertUser L out ps = out @ flushed (pendingTexts ps)
        \<and> (ac_Type q = ''tool_result'' \<longrightarrow>
             convertUser L out (ps @ q # qs) =
               convertUser L
                 (out @ flushed (pendingTexts ps)
                    @ [\<lparr>om_Role = ''tool'', om_Content = JString (contentString L (ac_Content q)),
                         om_Name = [], om_ToolCallID = ac_ToolUseID q, om_ToolCalls = []\<rparr>]) qs))
   \<and> contentString L (JString s) = s \<and> contentString L JNull = []
   \<and> (v \<noteq> JNull \<and> (\<forall>s. v \<noteq> JString s) \<longrightarrow> contentString L v = Marshal L v)"
proof (intro conjI impI)
  assume a: "am_Role m = ''user''
      \<and> parseAnthropicContent L (am_Content m) = Inr ([a, r, b], w)
      \<and> ac_Type a = ''text'' \<and> ac_Text a = ''A''
      \<and> ac_Type r = ''tool_result'' \<and> ac_ToolUseID r = ''call_1''
      \<and> ac_Content r = JString ''RESULT''
      \<and> ac_Type b = ''text'' \<and> ac_Text b = ''B''
      \<and> ConvertMessagesToOpenAI L (req\<lparr>ar_Messages := before\<rparr>) = Inr xs"
  define sys where "sys = (case systemToOpenAI L (ar_System req) of None \<Rightarrow> [] | Some sm \<Rightarrow> [sm])"
  have before: "convertMessages L sys before = Inr xs"
    using a by (simp add: ConvertMessagesToOpenAI_def sys_def)
  have user: "convertUser L xs [a, r, b] = xs @ threeMessages"
    using a by (simp add: convertUser_def userPart_def flushUser_def toolMessage_def
        contentString_def trim_A_B threeMessages_def)
  have one: "convertMessages L xs [m] = Inr (xs @ threeMessages)"
    using a user by simp
  show "ConvertMessagesToOpenAI L (req\<lparr>ar_Messages := before @ [m]\<rparr>) = Inr (xs @ threeMessages)"
    using before one by (simp add: ConvertMessagesToOpenAI_def sys_def [symmetric] convertMessages_append
        del: convertMessages.simps)
  show "take (length xs + 3) res = xs @ threeMessages"
    if "ConvertMessagesToOpenAI L (req\<lparr>ar_Messages := before @ m # after\<rparr>) = Inr res"
  proof -
    have "convertMessages L sys (before @ [m] @ after) = Inr res"
      using that by (simp add: ConvertMessagesToOpenAI_def sys_def)
    then have "convertMessages L (xs @ threeMessages) after = Inr res"
      using before one
      by (simp add: convertMessages_append [of L sys before] convertMessages_Cons [of L xs m after]
          del: convertMessages.simps)
    then obtain ys where "res = (xs @ threeMessages) @ ys"
      using convertMessages_extends by blast
    moreover have "length threeMessages = 3" by (simp add: threeMessages_def)
    ultimately show ?thesis by simp
  qed
next
  assume "filter (\<lambda>p. ac_Type p = ''tool_result'') ps = []"
  then show "convertUser L out ps = out @ flushed (pendingTexts ps)"
    by (rule convertUser_texts)
next
  assume "filter (\<lambda>p. ac_Type p = ''tool_result'') ps = []" "ac_Type q = ''tool_result''"
  then show "convertUser L out (ps @ q # qs) =
               convertUser L
                 (out @ flushed (pendingTexts ps)
                    @ [\<lparr>om_Role = ''tool'', om_Content = JString (contentString L (ac_Content q)),
                         om_Name = [], om_ToolCallID = ac_ToolUseID q, om_ToolCalls = []\<rparr>]) qs"
    using convertUser_result [of ps q L out qs] by (simp add: toolMessage_def)
next
  show "contentString L (JString s) = s" "contentString L JNull = []"
    by (simp_all add: contentString_def)
next
  assume "v \<noteq> JNull \<and> (\<forall>s. v \<noteq> JString s)"
  then show "contentString L v = Marshal L v"
    by (cases v) (simp_all add: contentString_def)
qed

theorem C3_witness:
  "am_Role interleaved = ''user''
   \<and> parseAnthropicContent table (am_Content interleaved)
       = Inr ([textContent ''A'', resultContent ''call_1'' (JString ''RESULT''), textContent ''B''],
              False)
   \<and> ConvertMessagesToOpenAI table (plainRequest []) = Inr []
   \<and> ConvertMessagesToOpenAI table (plainRequest [interleaved])
       = Inr [plainMessage ''user'' (JString ''A''),
              \<lparr>om_Role = ''tool'', om_Content = JString ''RESULT'', om_Name = [],
               om_ToolCallID = ''call_1'', om_ToolCalls = []\<rparr>,
              plainMessage ''user'' (JString ''B'')]
   \<and> filter (\<lambda>p. ac_Type p = ''tool_result'') [textContent ''A''] = []
   \<and> ac_Type (resultContent ''call_2'' (JArray [])) = ''tool_result''
   \<and> convertUser table [] [textContent ''A'', resultContent ''call_2'' (JArray []), textContent ''B'']
       = [plainMessage ''user'' (JString ''A''),
          \<lparr>om_Role = ''tool'', om_Content = JString ''[]'', om_Name = [],
           om_ToolCallID = ''call_2'', om_ToolCalls = []\<rparr>,
          plainMessage ''user'' (JString ''B'')]
   \<and> JArray [] \<noteq> JNull
   \<and> contentString table (JArray []) = ''[]''"
proof -
  have r: "am_Role interleaved = ''user''"
    by (simp add: interleaved_def)
  have p: "parseAnthropicContent table (am_Content interleaved)
       = Inr ([textContent ''A'', resultContent ''call_1'' (JString ''RESULT''), textContent ''B''],
              False)"
    by code_simp
  have e: "ConvertMessagesToOpenAI table (plainRequest []) = Inr []"
    by code_simp
  have req: "(plainRequest []) \<lparr>ar_Messages := [interleaved]\<rparr> = plainRequest [interleaved]"
    "(plainRequest []) \<lparr>ar_Messages := []\<rparr> = plainRequest []"
    by (simp_all add: plainRequest_def)
  have u: "convertUser table [] [textContent ''A'', resultContent ''call_2'' (JArray []), textContent ''B'']
       = [plainMessage ''user'' (JString ''A''),
          \<lparr>om_Role = ''tool'', om_Content = JString ''[]'', om_Name = [],
           om_ToolCallID = ''call_2'', om_ToolCalls = []\<rparr>,
          plainMessage ''user'' (JString ''B'')]"
    by code_simp
  have m: "Marshal table (JArray []) = ''[]''"
    by code_simp
  show ?thesis
    using C3_user_blocks [where m = interleaved and L = table and a = "textContent ''A''"
        and r = "resultContent ''call_1'' (JString ''RESULT'')" and b = "textContent ''B''"
        and w = False and req = "plainRequest []" and before = "[]" and xs = "[]"
        and ps = "[textContent ''A'']" and q = "resultContent ''call_2'' (JArray [])"
        and qs = "[textContent ''B'']" and out = "[]" and v = "JArray []"] r p e u m
    by (simp add: req textContent_def resultContent_def threeMessages_def)
qed

end
